theory Spec2Isabelle
  imports Complex_Main "HOL-Library.Log_Nat"
begin

section \<open>Run-time values\<close>

text \<open>
  The weather service (\<^verbatim>\<open>services/weatherAPI.ts\<close>) and the page (\<^verbatim>\<open>app/page.tsx\<close>) are
  TypeScript, so every value is a JavaScript value at run time. A \<^verbatim>\<open>number\<close> is a
  binary64 float. The model keeps its special values apart and takes the finite ones as
  the rationals they are, so passing a number on, comparing two numbers and testing one
  for zero are exact. An arithmetic result that binary64 rounds is rounded by \<open>round64\<close>
  below. The two zeros are one value, \<open>Finite 0\<close>.
\<close>

datatype number = NaN | PosInfinity | NegInfinity | Finite rat

subsection \<open>Rounding to binary64\<close>

text \<open>\<open>pow2 e\<close> is \<open>2\<close> to the power \<open>e\<close>, and \<open>binade x\<close>, for \<open>x > 0\<close>, the exponent \<open>e\<close> with
  \<open>pow2 e \<le> x < pow2 (e + 1)\<close>.\<close>

definition pow2 :: "int \<Rightarrow> rat" where
  "pow2 e = (if 0 \<le> e then 2 ^ nat e else 1 / 2 ^ nat (- e))"

definition binade :: "rat \<Rightarrow> int" where
  "binade x = (if 1 \<le> x then bitlen \<lfloor>x\<rfloor> - 1 else - bitlen (\<lceil>1 / x\<rceil> - 1))"

text \<open>The nearest integer, a tie going to the even one.\<close>

definition round_half_even :: "rat \<Rightarrow> int" where
  "round_half_even x =
     (let f = \<lfloor>x\<rfloor>; r = x - of_int f
      in if r < 1 / 2 then f else if 1 / 2 < r then f + 1 else if even f then f else f + 1)"

text \<open>
  IEEE 754 round-to-nearest, ties to even, of an exact result into binary64: 53
  significant bits, so the spacing in the binade \<open>e\<close> is \<open>pow2 (e - 52)\<close>; below
  \<open>pow2 (- 1022)\<close> the spacing stays that of the subnormals; a result that reaches
  \<open>pow2 1024\<close>, that is, whose binade is \<open>1024\<close> or more, overflows to infinity.
\<close>

definition round64_pos :: "rat \<Rightarrow> number" where
  "round64_pos x =
     (let e = max (binade x) (- 1022);
          u = pow2 (e - 52);
          r = of_int (round_half_even (x / u)) * u
      in if 1024 \<le> binade r then PosInfinity else Finite r)"

fun negate :: "number \<Rightarrow> number" where
  "negate (Finite a) = Finite (- a)"
| "negate PosInfinity = NegInfinity"
| "negate NegInfinity = PosInfinity"
| "negate NaN = NaN"

definition round64 :: "rat \<Rightarrow> number" where
  "round64 x =
     (if x = 0 then Finite 0
      else if 0 < x then round64_pos x
      else negate (round64_pos (- x)))"

text \<open>\<^verbatim>\<open>x + y\<close> on numbers: the exact sum, rounded. The program has no addition; this is
  the \<^verbatim>\<open>d + 360\<close> a caller of \<^verbatim>\<open>getWindDirection\<close> computes.\<close>

fun js_add :: "number \<Rightarrow> number \<Rightarrow> number" where
  "js_add (Finite a) (Finite b) = round64 (a + b)"
| "js_add NaN y = NaN"
| "js_add x NaN = NaN"
| "js_add PosInfinity NegInfinity = NaN"
| "js_add NegInfinity PosInfinity = NaN"
| "js_add PosInfinity y = PosInfinity"
| "js_add NegInfinity y = NegInfinity"
| "js_add (Finite a) y = y"

text \<open>
  The geocoder's body is typed \<^verbatim>\<open>NominatimResponse\<close> in the source, but nothing checks
  it at run time: \<^verbatim>\<open>response.data\<close> is whatever the service sent (parsed JSON, or the
  raw text when it does not parse). It is modelled as an untyped value. An object is
  the list of its own properties; the first binding of a key is the property.
\<close>

datatype jsval =
    JUndefined
  | JNull
  | JBoolean bool
  | JNumber number
  | JString string
  | JArray "jsval list"
  | JObject "(string \<times> jsval) list"

text \<open>
  A thrown value: an \<^verbatim>\<open>AxiosError\<close> with its \<^verbatim>\<open>code\<close> and \<^verbatim>\<open>message\<close> (a timeout has
  code \<^verbatim>\<open>ECONNABORTED\<close>; a network failure and a status outside 2xx reject too), or the
  \<^verbatim>\<open>TypeError\<close> of reading a property of \<^verbatim>\<open>undefined\<close> or \<^verbatim>\<open>null\<close>. A computation that
  may throw has type \<open>error + 'a\<close>; a promise settles to such a value.
\<close>

datatype error = AxiosError string string | TypeError string

fun message :: "error \<Rightarrow> string" where
  "message (AxiosError c m) = m"
| "message (TypeError m) = m"

definition and_then :: "'e + 'a \<Rightarrow> ('a \<Rightarrow> 'e + 'b) \<Rightarrow> 'e + 'b" where
  "and_then m f = (case m of Inl e \<Rightarrow> Inl e | Inr x \<Rightarrow> f x)"

text \<open>
  \<^verbatim>\<open>v.k\<close>: a \<^verbatim>\<open>TypeError\<close> on \<^verbatim>\<open>undefined\<close> and \<^verbatim>\<open>null\<close>, the property of an object or
  \<^verbatim>\<open>undefined\<close> when it has none; on a boolean, number, string or array the keys this
  program reads (\<^verbatim>\<open>address\<close>, \<^verbatim>\<open>city\<close>, \<^verbatim>\<open>town\<close>, \<^verbatim>\<open>village\<close>, \<^verbatim>\<open>county\<close>, \<^verbatim>\<open>country\<close>,
  \<^verbatim>\<open>state\<close>, \<^verbatim>\<open>lat\<close>, \<^verbatim>\<open>lon\<close>) are no built-in property, so the result is \<^verbatim>\<open>undefined\<close>.
\<close>

definition own_property :: "(string \<times> jsval) list \<Rightarrow> string \<Rightarrow> jsval" where
  "own_property kvs k = (case map_of kvs k of Some v \<Rightarrow> v | None \<Rightarrow> JUndefined)"

fun get_prop :: "jsval \<Rightarrow> string \<Rightarrow> error + jsval" where
  "get_prop JUndefined k = Inl (TypeError (''Cannot read properties of undefined (reading '' @ k @ '')''))"
| "get_prop JNull k = Inl (TypeError (''Cannot read properties of null (reading '' @ k @ '')''))"
| "get_prop (JObject kvs) k = Inr (own_property kvs k)"
| "get_prop v k = Inr JUndefined"

text \<open>JavaScript's truthiness, which \<^verbatim>\<open>||\<close>, \<^verbatim>\<open>&&\<close> and \<^verbatim>\<open>if\<close> test.\<close>

fun truthy_number :: "number \<Rightarrow> bool" where
  "truthy_number NaN = False"
| "truthy_number (Finite r) = (r \<noteq> 0)"
| "truthy_number PosInfinity = True"
| "truthy_number NegInfinity = True"

fun truthy :: "jsval \<Rightarrow> bool" where
  "truthy JUndefined = False"
| "truthy JNull = False"
| "truthy (JBoolean b) = b"
| "truthy (JNumber n) = truthy_number n"
| "truthy (JString s) = (s \<noteq> [])"
| "truthy (JArray xs) = True"
| "truthy (JObject kvs) = True"

text \<open>\<^verbatim>\<open>l || r\<close>: the value of \<open>l\<close> when it is truthy, else \<open>r\<close>; \<open>r\<close> is not evaluated
  (so cannot throw) when \<open>l\<close> is truthy.\<close>

definition or_else :: "error + jsval \<Rightarrow> error + jsval \<Rightarrow> error + jsval" where
  "or_else l r = and_then l (\<lambda>v. if truthy v then Inr v else r)"

section \<open>The data model of the service\<close>

datatype units = Metric | Imperial

record HourlyMain =
  temp :: number
  feels_like :: number
  temp_min :: number
  temp_max :: number
  pressure :: number
  sea_level :: number
  grnd_level :: number
  humidity :: number
  temp_kf :: number

text \<open>An entry of \<^verbatim>\<open>weather\<close>: its \<^verbatim>\<open>id\<close> and \<^verbatim>\<open>main\<close> are \<open>id'\<close> and \<open>main'\<close> here.\<close>

record Weather =
  id' :: number
  main' :: string
  description :: string
  icon :: string

record Wind =
  speed :: number
  deg :: number
  gust :: number

text \<open>\<^verbatim>\<open>clouds: { all }\<close>, \<^verbatim>\<open>rain?: { "3h" }\<close> and \<^verbatim>\<open>sys: { pod }\<close> have one field each and are
  modelled by that field.\<close>

record HourlyForecast =
  dt :: number
  main :: HourlyMain
  weather :: "Weather list"
  clouds_all :: number
  wind :: Wind
  visibility :: number
  pop :: number
  rain_3h :: "number option"
  sys_pod :: string
  dt_txt :: string

record DailyForecast =
  date :: string
  day_of_week :: string
  avg_temp :: number
  min_temp :: number
  max_temp :: number
  weather_condition :: string
  weather_description :: string
  weather_icon :: string
  hourly_forecasts :: "HourlyForecast list"

text \<open>
  \<^verbatim>\<open>CityInfo\<close> is the one record the service builds itself. Its \<^verbatim>\<open>name\<close>, \<^verbatim>\<open>country\<close> and
  \<^verbatim>\<open>state\<close> receive whatever the geocoder's unchecked body holds at those keys, so they
  hold run-time values: a \<^verbatim>\<open>string\<close> is \<open>JString s\<close>, an absent \<^verbatim>\<open>state?\<close> is
  \<open>JUndefined\<close>. Its \<^verbatim>\<open>lat\<close> and \<^verbatim>\<open>lon\<close> are always numbers: \<^verbatim>\<open>parseFloat\<close> returns a number,
  and the backend's are numbers by the type of \<^verbatim>\<open>WeatherForecast\<close>.
\<close>

record CityInfo =
  name :: jsval
  country :: jsval
  state :: jsval
  lat :: number
  lon :: number

text \<open>\<^verbatim>\<open>City\<close>: \<^verbatim>\<open>id\<close>, \<^verbatim>\<open>name\<close>, \<^verbatim>\<open>coord.lat\<close>, \<^verbatim>\<open>coord.lon\<close> and \<^verbatim>\<open>country\<close> carry a prefix here, to
  keep them apart from the fields of \<^verbatim>\<open>CityInfo\<close>; the service passes a \<^verbatim>\<open>City\<close> on unread.\<close>

record City =
  city_id :: number
  city_name :: string
  coord_lat :: number
  coord_lon :: number
  city_country :: string
  population :: number
  timezone :: number
  sunrise :: number
  sunset :: number

record WeatherForecast =
  city :: City
  daily_forecasts :: "DailyForecast list"
  city_info :: CityInfo

section \<open>The remote services and what a call leaves behind\<close>

text \<open>
  The two axios instances are the program's only windows on the world. \<open>remotes\<close> says
  how each request settles: \<open>Inl e\<close> when the promise of \<^verbatim>\<open>get\<close> rejects (timeout,
  network error, status outside 2xx), \<open>Inr d\<close> when it resolves with \<^verbatim>\<open>response.data = d\<close>.
  The fixed parameters of the geocoding request (\<^verbatim>\<open>format=json\<close>, \<^verbatim>\<open>zoom=10\<close>,
  \<^verbatim>\<open>addressdetails=1\<close>) are part of \<open>Reverse\<close>.
\<close>

datatype request =
    Reverse number number
  | ForecastCity string units
  | ForecastCoordinates number number units

datatype event = Issued request | Settled request | ConsoleError string

record remotes =
  nominatim_reverse :: "number \<Rightarrow> number \<Rightarrow> error + jsval"
  forecast_city :: "string \<Rightarrow> units \<Rightarrow> error + WeatherForecast"
  forecast_coordinates :: "number \<Rightarrow> number \<Rightarrow> units \<Rightarrow> error + WeatherForecast"

section \<open>WeatherService\<close>

text \<open>\<^verbatim>\<open>data.address.k\<close>\<close>

definition address_field :: "jsval \<Rightarrow> string \<Rightarrow> error + jsval" where
  "address_field data k = and_then (get_prop data ''address'') (\<lambda>a. get_prop a k)"

text \<open>
  Line 147:
  \<^verbatim>\<open>data.address.city || data.address.town || data.address.village || data.address.county || 'Unknown Location'\<close>
  (\<^verbatim>\<open>||\<close> associates to the left).
\<close>

definition display_name :: "jsval \<Rightarrow> error + jsval" where
  "display_name data =
     or_else
       (or_else
          (or_else
             (or_else (address_field data ''city'') (address_field data ''town''))
             (address_field data ''village''))
          (address_field data ''county''))
       (Inr (JString ''Unknown Location''))"

text \<open>
  Lines 144 to 155, the body of the \<^verbatim>\<open>try\<close> after the request: the descriptor built from
  \<^verbatim>\<open>response.data\<close>, or the error thrown on the way.

  \<^verbatim>\<open>parseFloat\<close> is the language's built-in. It first converts its argument to a string,
  and that conversion throws a \<^verbatim>\<open>TypeError\<close> on an object that has a \<^verbatim>\<open>toString\<close> property
  of its own (in a value that came out of JSON no property is a function, so neither
  that \<^verbatim>\<open>toString\<close> nor any \<^verbatim>\<open>valueOf\<close> yields a primitive), and on an array with such an
  element, which \<^verbatim>\<open>join\<close> converts in turn. On every other value it returns a number;
  which number is a parameter of the model.
\<close>

fun to_string_throws :: "jsval \<Rightarrow> bool" where
  "to_string_throws (JObject kvs) = (map_of kvs ''toString'' \<noteq> None)"
| "to_string_throws (JArray xs) = list_ex to_string_throws xs"
| "to_string_throws v = False"

definition parse_float :: "(jsval \<Rightarrow> number) \<Rightarrow> jsval \<Rightarrow> error + number" where
  "parse_float parseFloat v =
     (if to_string_throws v then Inl (TypeError ''Cannot convert object to primitive value'')
      else Inr (parseFloat v))"

definition location_of_data :: "(jsval \<Rightarrow> number) \<Rightarrow> jsval \<Rightarrow> error + CityInfo" where
  "location_of_data parseFloat data =
     and_then (display_name data) (\<lambda>n.
     and_then (address_field data ''country'') (\<lambda>c.
     and_then (address_field data ''state'') (\<lambda>s.
     and_then (get_prop data ''lat'') (\<lambda>la.
     and_then (parse_float parseFloat la) (\<lambda>x.
     and_then (get_prop data ''lon'') (\<lambda>lo.
     and_then (parse_float parseFloat lo) (\<lambda>y.
       Inr \<lparr>name = n, country = c, state = s, lat = x, lon = y\<rparr>)))))))"

text \<open>
  \<^verbatim>\<open>getLocationFromCoords\<close>: the result the promise settles to (\<open>Inr None\<close> is \<^verbatim>\<open>null\<close>),
  and the events of the call in order. The \<^verbatim>\<open>catch\<close> logs and returns \<^verbatim>\<open>null\<close>.
\<close>

definition getLocationFromCoords ::
  "(jsval \<Rightarrow> number) \<Rightarrow> remotes \<Rightarrow> number \<Rightarrow> number \<Rightarrow> (error + CityInfo option) \<times> event list" where
  "getLocationFromCoords parseFloat env lat' lon' =
     (case and_then (nominatim_reverse env lat' lon') (location_of_data parseFloat) of
        Inr info \<Rightarrow>
          (Inr (Some info), [Issued (Reverse lat' lon'), Settled (Reverse lat' lon')])
      | Inl e \<Rightarrow>
          (Inr None, [Issued (Reverse lat' lon'), Settled (Reverse lat' lon'),
                      ConsoleError ''Error getting location from coordinates:'']))"

text \<open>\<^verbatim>\<open>getForecastByCity\<close>: one request; the \<^verbatim>\<open>catch\<close> logs and rethrows what it caught.\<close>

definition getForecastByCity ::
  "remotes \<Rightarrow> string \<Rightarrow> units \<Rightarrow> (error + WeatherForecast) \<times> event list" where
  "getForecastByCity env city' units' =
     (case forecast_city env city' units' of
        Inr data \<Rightarrow>
          (Inr data, [Issued (ForecastCity city' units'), Settled (ForecastCity city' units')])
      | Inl e \<Rightarrow>
          (Inl e, [Issued (ForecastCity city' units'), Settled (ForecastCity city' units'),
                   ConsoleError ''Error fetching weather forecast:'']))"

text \<open>
  \<^verbatim>\<open>getForecastByCoords\<close>: the geocoding call is awaited first, then the forecast request
  is made with the caller's \<^verbatim>\<open>lat\<close>, \<^verbatim>\<open>lon\<close> and \<^verbatim>\<open>units\<close>. When \<^verbatim>\<open>locationInfo\<close> is an
  object (truthy), \<^verbatim>\<open>city_info\<close> becomes \<^verbatim>\<open>{...weatherData.city_info, name, country, state}\<close>:
  a record update of those three fields. The \<^verbatim>\<open>catch\<close> logs and rethrows.
\<close>

definition getForecastByCoords ::
  "(jsval \<Rightarrow> number) \<Rightarrow> remotes \<Rightarrow> number \<Rightarrow> number \<Rightarrow> units \<Rightarrow>
     (error + WeatherForecast) \<times> event list" where
  "getForecastByCoords parseFloat env lat' lon' units' =
     (case getLocationFromCoords parseFloat env lat' lon' of
        (Inl e, evs) \<Rightarrow>
          (Inl e, evs @ [ConsoleError ''Error fetching weather forecast by coordinates:''])
      | (Inr locationInfo, evs) \<Rightarrow>
          (case forecast_coordinates env lat' lon' units' of
             Inl e \<Rightarrow>
               (Inl e, evs @ [Issued (ForecastCoordinates lat' lon' units'),
                              Settled (ForecastCoordinates lat' lon' units'),
                              ConsoleError ''Error fetching weather forecast by coordinates:''])
           | Inr weatherData \<Rightarrow>
               (Inr (case locationInfo of
                       Some info \<Rightarrow>
                         weatherData\<lparr>city_info :=
                           (city_info weatherData)\<lparr>name := name info,
                                                     country := country info,
                                                     state := state info\<rparr>\<rparr>
                     | None \<Rightarrow> weatherData),
                evs @ [Issued (ForecastCoordinates lat' lon' units'),
                       Settled (ForecastCoordinates lat' lon' units')])))"

section \<open>The page\<close>

subsection \<open>Arithmetic of getWindDirection\<close>

text \<open>Rounding toward zero, which \<^verbatim>\<open>%\<close> is defined by.\<close>

definition trunc :: "rat \<Rightarrow> int" where
  "trunc x = (if 0 \<le> x then \<lfloor>x\<rfloor> else \<lceil>x\<rceil>)"

text \<open>\<^verbatim>\<open>x % m\<close> and \<^verbatim>\<open>x / m\<close> for a finite non-zero constant \<open>m\<close> (the program has \<open>360\<close>, \<open>45\<close>
  and \<open>8\<close>): the remainder has the sign of \<open>x\<close>, is exact in binary64, and is \<^verbatim>\<open>NaN\<close> when
  \<open>x\<close> is not finite; the quotient is rounded.\<close>

fun rem_num :: "number \<Rightarrow> rat \<Rightarrow> number" where
  "rem_num (Finite a) m = Finite (a - m * of_int (trunc (a / m)))"
| "rem_num x m = NaN"

fun div_num :: "number \<Rightarrow> rat \<Rightarrow> number" where
  "div_num (Finite a) m = round64 (a / m)"
| "div_num NaN m = NaN"
| "div_num PosInfinity m = (if 0 < m then PosInfinity else NegInfinity)"
| "div_num NegInfinity m = (if 0 < m then NegInfinity else PosInfinity)"

text \<open>\<^verbatim>\<open>Math.round\<close>: the nearest integer, a tie going up; exact in binary64.\<close>

fun math_round :: "number \<Rightarrow> number" where
  "math_round (Finite a) = Finite (of_int \<lfloor>a + 1 / 2\<rfloor>)"
| "math_round x = x"

text \<open>\<^verbatim>\<open>xs[i]\<close> on an array of strings: the element when \<open>i\<close> is an integer within the
  array, \<^verbatim>\<open>undefined\<close> otherwise (a negative, fractional or non-finite index).\<close>

fun at_index :: "string list \<Rightarrow> number \<Rightarrow> jsval" where
  "at_index xs (Finite r) =
     (if r = of_int \<lfloor>r\<rfloor> \<and> 0 \<le> r \<and> \<lfloor>r\<rfloor> < int (length xs)
      then JString (xs ! nat \<lfloor>r\<rfloor>) else JUndefined)"
| "at_index xs x = JUndefined"

definition directions :: "string list" where
  "directions = [''N'', ''NE'', ''E'', ''SE'', ''S'', ''SW'', ''W'', ''NW'']"

text \<open>
  \<^verbatim>\<open>getWindDirection(deg?: number)\<close>; \<open>None\<close> is \<^verbatim>\<open>undefined\<close>. The result is a run-time
  value, since \<^verbatim>\<open>directions[i]\<close> is \<^verbatim>\<open>undefined\<close> for a negative \<open>i\<close>.
\<close>

definition getWindDirection :: "number option \<Rightarrow> jsval" where
  "getWindDirection deg' =
     (case deg' of
        None \<Rightarrow> JString ''N/A''
      | Some d \<Rightarrow> at_index directions (rem_num (math_round (div_num (rem_num d 360) 45)) 8))"

subsection \<open>refetchWeather\<close>

text \<open>The component's state (\<^verbatim>\<open>useState\<close>); \<open>city'\<close> is the \<^verbatim>\<open>city\<close> of the search box.\<close>

record page_state =
  city' :: string
  weatherData :: "WeatherForecast option"
  loading :: bool
  error :: "string option"
  units :: units
  geoLoading :: bool

text \<open>
  \<^verbatim>\<open>refetchWeather\<close>: the state once the callback has finished, and the events of the
  call. The source has the search by city name twice, with the same text, at lines 97
  and 109; it is \<open>by_city\<close> here. \<^verbatim>\<open>weatherData?.city_info\<close> is truthy exactly when there is a forecast (its
  \<^verbatim>\<open>city_info\<close> is an object); \<^verbatim>\<open>city_info.lat && city_info.lon\<close> tests the two numbers
  for truthiness; \<^verbatim>\<open>city\<close> is truthy when it is not empty. Every thrown value is an
  \<^verbatim>\<open>Error\<close>, so the message shown is its \<^verbatim>\<open>message\<close>.
\<close>

definition refetchWeather ::
  "(jsval \<Rightarrow> number) \<Rightarrow> remotes \<Rightarrow> page_state \<Rightarrow> page_state \<times> event list" where
  "refetchWeather parseFloat env s =
     (let s0 = s\<lparr>error := None\<rparr>;
          by_city =
            (if city' s \<noteq> [] then
               (case getForecastByCity env (city' s) (units s) of
                  (Inr data, evs) \<Rightarrow> (s0\<lparr>weatherData := Some data, loading := False\<rparr>, evs)
                | (Inl e, evs) \<Rightarrow>
                    (s0\<lparr>error := Some (message e), loading := False\<rparr>,
                     evs @ [ConsoleError ''Error refetching weather:'']))
             else (s0, []))
      in case weatherData s of
           Some w \<Rightarrow>
             if truthy_number (lat (city_info w)) \<and> truthy_number (lon (city_info w)) then
               (case getForecastByCoords parseFloat env
                       (lat (city_info w)) (lon (city_info w)) (units s) of
                  (Inr data, evs) \<Rightarrow> (s0\<lparr>weatherData := Some data, geoLoading := False\<rparr>, evs)
                | (Inl e, evs) \<Rightarrow>
                    (s0\<lparr>error := Some (message e), geoLoading := False\<rparr>,
                     evs @ [ConsoleError ''Error refetching weather:'']))
             else by_city
         | None \<Rightarrow> by_city)"

section \<open>What the specification says, in its own words\<close>

text \<open>
  Section 3 of the specification: the display name is the first non-empty field in the
  order city, town, village, county, and the literal \<^verbatim>\<open>Unknown Location\<close> when there is
  none. This definition follows the specification, not the source; \<open>display_name\<close>
  above is the source's.
\<close>

definition nonempty :: "jsval \<Rightarrow> bool" where
  "nonempty v = (case v of JString s \<Rightarrow> s \<noteq> [] | _ \<Rightarrow> False)"

definition spec_display_name :: "(string \<times> jsval) list \<Rightarrow> jsval" where
  "spec_display_name address =
     (case find nonempty (map (own_property address) [''city'', ''town'', ''village'', ''county'']) of
        Some v \<Rightarrow> v
      | None \<Rightarrow> JString ''Unknown Location'')"

text \<open>A field as \<^verbatim>\<open>NominatimResponse\<close> types it (\<^verbatim>\<open>city?: string\<close>): a string, or absent.\<close>

definition optional_string :: "jsval \<Rightarrow> bool" where
  "optional_string v = (case v of JUndefined \<Rightarrow> True | JString s \<Rightarrow> True | _ \<Rightarrow> False)"

text \<open>A body has an address when \<^verbatim>\<open>data.address\<close> can be read and is neither \<^verbatim>\<open>undefined\<close>
  nor \<^verbatim>\<open>null\<close>.\<close>

definition has_address :: "jsval \<Rightarrow> bool" where
  "has_address data =
     (case get_prop data ''address'' of
        Inl e \<Rightarrow> False
      | Inr a \<Rightarrow> a \<noteq> JUndefined \<and> a \<noteq> JNull)"

text \<open>The requests among the events of a call, in order.\<close>

fun is_request :: "event \<Rightarrow> bool" where
  "is_request (ConsoleError m) = False"
| "is_request e = True"

definition requests :: "event list \<Rightarrow> event list" where
  "requests evs = filter is_request evs"

section \<open>Concrete inputs\<close>

text \<open>The world in which every geocoding request settles to \<open>g\<close> and every forecast
  request to \<open>f\<close>.\<close>

definition fixed_remotes :: "error + jsval \<Rightarrow> error + WeatherForecast \<Rightarrow> remotes" where
  "fixed_remotes g f =
     \<lparr>nominatim_reverse = (\<lambda>la lo. g),
      forecast_city = (\<lambda>c u. f),
      forecast_coordinates = (\<lambda>la lo u. f)\<rparr>"

text \<open>\<^verbatim>\<open>parseFloat\<close> given by its values at the arguments listed, \<^verbatim>\<open>NaN\<close> elsewhere (as it is
  at \<^verbatim>\<open>undefined\<close>).\<close>

definition table_parseFloat :: "(jsval \<times> number) list \<Rightarrow> jsval \<Rightarrow> number" where
  "table_parseFloat tbl v = (case map_of tbl v of Some n \<Rightarrow> n | None \<Rightarrow> NaN)"

definition nairobi_parseFloat :: "jsval \<Rightarrow> number" where
  "nairobi_parseFloat =
     table_parseFloat
       [(JString ''-1.2832533'', Finite (- 12832533 / 10000000)),
        (JString ''36.8172449'', Finite (368172449 / 10000000))]"

text \<open>A body of the geocoder with the address record given.\<close>

definition body_with_address :: "(string \<times> jsval) list \<Rightarrow> jsval" where
  "body_with_address address =
     JObject [(''place_id'', JNumber (Finite 5520284)),
              (''lat'', JString ''-1.2832533''),
              (''lon'', JString ''36.8172449''),
              (''display_name'', JString ''Nairobi, Kenya''),
              (''address'', JObject address)]"

definition nairobi_body :: jsval where
  "nairobi_body =
     body_with_address
       [(''city'', JString ''Nairobi''),
        (''state'', JString ''Nairobi County''),
        (''country'', JString ''Kenya''),
        (''country_code'', JString ''ke'')]"

definition nairobi_city :: City where
  "nairobi_city =
     \<lparr>city_id = Finite 184745, city_name = ''Nairobi'',
      coord_lat = Finite (- 12833 / 10000), coord_lon = Finite (368167 / 10000),
      city_country = ''KE'', population = Finite 2750547, timezone = Finite 10800,
      sunrise = Finite 1746588420, sunset = Finite 1746631920\<rparr>"

text \<open>A forecast of the backend: its place info has the coordinates of the city it
  matched and a region of its own.\<close>

definition nairobi_forecast :: WeatherForecast where
  "nairobi_forecast =
     \<lparr>city = nairobi_city, daily_forecasts = [],
      city_info = \<lparr>name = JString ''Nairobi South'', country = JString ''KE'',
                   state = JString ''Nairobi Area'',
                   lat = Finite (- 12833 / 10000), lon = Finite (368167 / 10000)\<rparr>\<rparr>"

text \<open>A forecast for a place on the equator, and the page holding it.\<close>

definition equator_forecast :: WeatherForecast where
  "equator_forecast =
     \<lparr>city = nairobi_city, daily_forecasts = [],
      city_info = \<lparr>name = JString ''Nanyuki'', country = JString ''KE'',
                   state = JUndefined,
                   lat = Finite 0, lon = Finite (3707 / 100)\<rparr>\<rparr>"

definition equator_page :: page_state where
  "equator_page =
     \<lparr>city' = ''Nanyuki'', weatherData = Some equator_forecast, loading = False,
      error = None, units = Metric, geoLoading = False\<rparr>"

definition timeout_error :: error where
  "timeout_error = AxiosError ''ECONNABORTED'' ''timeout of 10000ms exceeded''"


text \<open>A query point in Nairobi, and the worlds the examples run in: the geocoder
  answering with \<open>nairobi_body\<close>, and the geocoder timing out.\<close>

definition query_lat :: number where
  "query_lat = Finite (- 12921 / 10000)"

definition query_lon :: number where
  "query_lon = Finite (368219 / 10000)"

definition nairobi_remotes :: remotes where
  "nairobi_remotes = fixed_remotes (Inr nairobi_body) (Inr nairobi_forecast)"

definition geocoder_down_remotes :: remotes where
  "geocoder_down_remotes = fixed_remotes (Inl timeout_error) (Inr nairobi_forecast)"

text \<open>The descriptor \<open>nairobi_body\<close> resolves to, and \<open>nairobi_forecast\<close> merged with it.\<close>

definition nairobi_place :: CityInfo where
  "nairobi_place =
     \<lparr>name = JString ''Nairobi'', country = JString ''Kenya'',
      state = JString ''Nairobi County'',
      lat = Finite (- 12832533 / 10000000), lon = Finite (368172449 / 10000000)\<rparr>"

definition nairobi_merged :: WeatherForecast where
  "nairobi_merged =
     \<lparr>city = nairobi_city, daily_forecasts = [],
      city_info = \<lparr>name = JString ''Nairobi'', country = JString ''Kenya'',
                   state = JString ''Nairobi County'',
                   lat = Finite (- 12833 / 10000), lon = Finite (368167 / 10000)\<rparr>\<rparr>"

text \<open>An address record with no state, the world whose geocoder answers with it, and
  the descriptor it resolves to.\<close>

definition stateless_address :: "(string \<times> jsval) list" where
  "stateless_address = [(''city'', JString ''Nairobi''), (''country'', JString ''Kenya'')]"

definition stateless_remotes :: remotes where
  "stateless_remotes =
     fixed_remotes (Inr (body_with_address stateless_address)) (Inr nairobi_forecast)"

definition stateless_place :: CityInfo where
  "stateless_place =
     \<lparr>name = JString ''Nairobi'', country = JString ''Kenya'', state = JUndefined,
      lat = Finite (- 12832533 / 10000000), lon = Finite (368172449 / 10000000)\<rparr>"


section \<open>Facts about the building blocks\<close>

lemma and_then_Inr [simp]: "and_then (Inr x) f = f x"
  by (simp add: and_then_def)

lemma and_then_Inl [simp]: "and_then (Inl e) f = Inl e"
  by (simp add: and_then_def)

lemma or_else_Inr: "or_else (Inr v) r = (if truthy v then Inr v else r)"
  by (simp add: or_else_def)

lemma or_else_returns:
  "\<exists>v. l = Inr v \<Longrightarrow> \<exists>v. r = Inr v \<Longrightarrow> \<exists>v. or_else l r = Inr v"
  by (auto simp add: or_else_def)

lemma get_prop_defined:
  "a \<noteq> JUndefined \<Longrightarrow> a \<noteq> JNull \<Longrightarrow> \<exists>v. get_prop a k = Inr v"
  by (cases a) auto

text \<open>Once \<^verbatim>\<open>data.address\<close> has been read, \<^verbatim>\<open>data\<close> is neither \<^verbatim>\<open>undefined\<close> nor \<^verbatim>\<open>null\<close>,
  so \<^verbatim>\<open>data.lat\<close> and \<^verbatim>\<open>data.lon\<close> do not throw.\<close>

lemma get_prop_of_body:
  "get_prop data ''address'' = Inr a \<Longrightarrow> \<exists>v. get_prop data k = Inr v"
  by (cases data) auto

lemma address_field_object:
  "get_prop data ''address'' = Inr (JObject kvs) \<Longrightarrow>
   address_field data k = Inr (own_property kvs k)"
  by (simp add: address_field_def)

lemma truthy_optional_string: "optional_string v \<Longrightarrow> truthy v = nonempty v"
  by (cases v) (simp_all add: optional_string_def nonempty_def)

subsection \<open>The display name\<close>

lemma display_name_object:
  assumes "get_prop data ''address'' = Inr (JObject kvs)"
  shows "display_name data =
     Inr (if truthy (own_property kvs ''city'') then own_property kvs ''city''
          else if truthy (own_property kvs ''town'') then own_property kvs ''town''
          else if truthy (own_property kvs ''village'') then own_property kvs ''village''
          else if truthy (own_property kvs ''county'') then own_property kvs ''county''
          else JString ''Unknown Location'')"
  by (simp add: display_name_def address_field_object [OF assms] or_else_Inr)

lemma spec_display_name_typed:
  assumes "list_all (\<lambda>k. optional_string (own_property kvs k))
             [''city'', ''town'', ''village'', ''county'']"
  shows "spec_display_name kvs =
     (if truthy (own_property kvs ''city'') then own_property kvs ''city''
      else if truthy (own_property kvs ''town'') then own_property kvs ''town''
      else if truthy (own_property kvs ''village'') then own_property kvs ''village''
      else if truthy (own_property kvs ''county'') then own_property kvs ''county''
      else JString ''Unknown Location'')"
  using assms by (simp add: spec_display_name_def truthy_optional_string)

subsection \<open>The descriptor built from a body\<close>

lemma parse_float_Inr:
  "\<not> to_string_throws v \<Longrightarrow> parse_float pf v = Inr (pf v)"
  by (simp add: parse_float_def)

lemma parse_float_Inl:
  "to_string_throws v \<Longrightarrow> \<exists>e. parse_float pf v = Inl e"
  by (simp add: parse_float_def)

text \<open>What a descriptor, once built, was built from.\<close>

lemma location_of_data_Inr:
  assumes "location_of_data pf data = Inr info"
  shows "\<exists>n c s x y.
     display_name data = Inr n \<and> address_field data ''country'' = Inr c \<and>
     address_field data ''state'' = Inr s \<and>
     get_prop data ''lat'' = Inr x \<and> \<not> to_string_throws x \<and>
     get_prop data ''lon'' = Inr y \<and> \<not> to_string_throws y \<and>
     info = \<lparr>name = n, country = c, state = s, lat = pf x, lon = pf y\<rparr>"
  using assms
  by (auto simp add: location_of_data_def and_then_def parse_float_def
      split: sum.splits if_splits)

lemma location_of_data_object:
  assumes "get_prop data ''address'' = Inr (JObject kvs)"
    and "get_prop data ''lat'' = Inr x" and "\<not> to_string_throws x"
    and "get_prop data ''lon'' = Inr y" and "\<not> to_string_throws y"
  shows "location_of_data pf data =
       Inr \<lparr>name = projr (display_name data), country = own_property kvs ''country'',
            state = own_property kvs ''state'', lat = pf x, lon = pf y\<rparr>"
  by (simp add: location_of_data_def assms(2,4) parse_float_Inr [OF assms(3)]
      parse_float_Inr [OF assms(5)] address_field_object [OF assms(1)]
      display_name_object [OF assms(1)])



text \<open>A body with an address whose \<^verbatim>\<open>lat\<close> and \<^verbatim>\<open>lon\<close> convert makes nothing throw.\<close>

lemma location_of_data_has_address:
  assumes "has_address data"
    and "get_prop data ''lat'' = Inr x" and "\<not> to_string_throws x"
    and "get_prop data ''lon'' = Inr y" and "\<not> to_string_throws y"
  shows "\<exists>info. location_of_data pf data = Inr info"
proof -
  obtain a where a: "get_prop data ''address'' = Inr a" "a \<noteq> JUndefined" "a \<noteq> JNull"
    using assms(1) by (auto simp add: has_address_def split: sum.splits)
  have f: "\<exists>v. address_field data k = Inr v" for k
    using get_prop_defined [OF a(2,3), of k] by (simp add: address_field_def a(1))
  have "\<exists>v. display_name data = Inr v"
    unfolding display_name_def by (intro or_else_returns f) simp
  then obtain n where n: "display_name data = Inr n" by blast
  obtain c where c: "address_field data ''country'' = Inr c" using f by blast
  obtain s where s: "address_field data ''state'' = Inr s" using f by blast
  show ?thesis
    by (simp add: location_of_data_def n c s assms(2,4) parse_float_Inr [OF assms(3)]
        parse_float_Inr [OF assms(5)])
qed

subsection \<open>The two calls of the service, by cases\<close>

lemma getLocationFromCoords_cases:
  "fst (getLocationFromCoords pf env la lo) =
     (case and_then (nominatim_reverse env la lo) (location_of_data pf) of
        Inr info \<Rightarrow> Inr (Some info) | Inl e \<Rightarrow> Inr None)"
  by (simp add: getLocationFromCoords_def split: sum.splits)

lemma getLocationFromCoords_returns:
  "\<exists>r evs. getLocationFromCoords pf env la lo = (Inr r, evs)"
  by (simp add: getLocationFromCoords_def split: sum.splits)

lemma getLocationFromCoords_Some:
  assumes "nominatim_reverse env la lo = Inr data"
    and "fst (getLocationFromCoords pf env la lo) = Inr (Some info)"
  shows "location_of_data pf data = Inr info"
  using assms by (simp add: getLocationFromCoords_cases split: sum.splits)

lemma getForecastByCoords_result:
  assumes "getLocationFromCoords pf env la lo = (Inr loc, evs)"
  shows "fst (getForecastByCoords pf env la lo u) =
     (case forecast_coordinates env la lo u of
        Inl e \<Rightarrow> Inl e
      | Inr w \<Rightarrow>
          Inr (case loc of
                 Some info \<Rightarrow>
                   w\<lparr>city_info := (city_info w)\<lparr>name := name info, country := country info,
                                                state := state info\<rparr>\<rparr>
               | None \<Rightarrow> w))"
  using assms by (simp add: getForecastByCoords_def split: sum.splits)

lemma getForecastByCoords_requests:
  "requests (snd (getForecastByCoords pf env la lo u)) =
     [Issued (Reverse la lo), Settled (Reverse la lo),
      Issued (ForecastCoordinates la lo u), Settled (ForecastCoordinates la lo u)]"
  by (simp add: getForecastByCoords_def getLocationFromCoords_def requests_def
      split: sum.splits)

subsection \<open>Wind direction\<close>

lemma rem_num_wrap:
  assumes "0 \<le> d"
  shows "rem_num (Finite (d + 360)) 360 = rem_num (Finite d) 360"
proof -
  have e: "(d + 360) / 360 = d / 360 + 1" by (simp add: add_divide_distrib)
  have "0 \<le> d / 360" "0 \<le> d / 360 + 1" using assms by simp_all
  then show ?thesis
    by (simp add: trunc_def e algebra_simps)
qed

lemma getWindDirection_wrap:
  assumes "0 \<le> d"
  shows "getWindDirection (Some (Finite (d + 360))) = getWindDirection (Some (Finite d))"
  unfolding getWindDirection_def by (simp only: option.case rem_num_wrap [OF assms])

subsection \<open>Unfolding the concrete inputs\<close>

lemmas service_defs =
  getLocationFromCoords_def getForecastByCoords_def getForecastByCity_def
  location_of_data_def parse_float_def display_name_def address_field_def or_else_def
  and_then_def own_property_def

lemmas example_defs =
  fixed_remotes_def nairobi_remotes_def geocoder_down_remotes_def
  nairobi_body_def body_with_address_def nairobi_parseFloat_def table_parseFloat_def
  nairobi_forecast_def nairobi_place_def nairobi_merged_def query_lat_def query_lon_def

section \<open>The claims\<close>

text \<open>
  Claim C1. For every backend forecast \<open>w\<close> and every \<open>lat\<close>, \<open>lon\<close>, \<open>units\<close>: when the
  geocoding step yields a descriptor, \<^verbatim>\<open>getForecastByCoords\<close> returns \<open>w\<close> with the
  \<^verbatim>\<open>name\<close>, \<^verbatim>\<open>country\<close> and \<^verbatim>\<open>state\<close> of \<^verbatim>\<open>city_info\<close> replaced by the descriptor's, and
  \<^verbatim>\<open>city\<close>, \<^verbatim>\<open>daily_forecasts\<close> and the \<^verbatim>\<open>lat\<close> and \<^verbatim>\<open>lon\<close> of \<^verbatim>\<open>city_info\<close> as the backend
  sent them; when the geocoding step yields \<^verbatim>\<open>null\<close>, it returns \<open>w\<close> itself.
\<close>

theorem getForecastByCoords_merges_place:
  assumes "forecast_coordinates env la lo u = Inr w"
  shows "(\<forall>info. fst (getLocationFromCoords pf env la lo) = Inr (Some info) \<longrightarrow>
            fst (getForecastByCoords pf env la lo u) =
              Inr \<lparr>city = city w, daily_forecasts = daily_forecasts w,
                   city_info = \<lparr>name = name info, country = country info,
                                state = state info,
                                lat = lat (city_info w), lon = lon (city_info w)\<rparr>\<rparr>)
       \<and> (fst (getLocationFromCoords pf env la lo) = Inr None \<longrightarrow>
            fst (getForecastByCoords pf env la lo u) = Inr w)"
proof -
  obtain loc evs where g: "getLocationFromCoords pf env la lo = (Inr loc, evs)"
    using getLocationFromCoords_returns by blast
  show ?thesis
    using getForecastByCoords_result [OF g, of u] assms g by auto
qed

text \<open>Both cases at the query point: the geocoder answering, and the geocoder timing
  out.\<close>

theorem getForecastByCoords_merges_place_witness:
  "forecast_coordinates nairobi_remotes query_lat query_lon Metric = Inr nairobi_forecast
   \<and> fst (getLocationFromCoords nairobi_parseFloat nairobi_remotes query_lat query_lon) =
       Inr (Some nairobi_place)
   \<and> fst (getForecastByCoords nairobi_parseFloat nairobi_remotes query_lat query_lon Metric) =
       Inr nairobi_merged
   \<and> forecast_coordinates geocoder_down_remotes query_lat query_lon Metric =
       Inr nairobi_forecast
   \<and> fst (getLocationFromCoords nairobi_parseFloat geocoder_down_remotes query_lat query_lon) =
       Inr None
   \<and> fst (getForecastByCoords nairobi_parseFloat geocoder_down_remotes query_lat query_lon
            Metric) = Inr nairobi_forecast"
proof -
  have f1: "forecast_coordinates nairobi_remotes query_lat query_lon Metric =
      Inr nairobi_forecast"
    by (simp add: nairobi_remotes_def fixed_remotes_def)
  have g1: "fst (getLocationFromCoords nairobi_parseFloat nairobi_remotes query_lat query_lon) =
      Inr (Some nairobi_place)"
    by (simp add: service_defs example_defs)
  have f2: "forecast_coordinates geocoder_down_remotes query_lat query_lon Metric =
      Inr nairobi_forecast"
    by (simp add: geocoder_down_remotes_def fixed_remotes_def)
  have g2: "fst (getLocationFromCoords nairobi_parseFloat geocoder_down_remotes query_lat
      query_lon) = Inr None"
    by (simp add: service_defs example_defs)
  have r1: "fst (getForecastByCoords nairobi_parseFloat nairobi_remotes query_lat query_lon
      Metric) = Inr nairobi_merged"
    using getForecastByCoords_merges_place [OF f1, of nairobi_parseFloat] g1
    by (simp add: nairobi_place_def nairobi_merged_def nairobi_forecast_def)
  have r2: "fst (getForecastByCoords nairobi_parseFloat geocoder_down_remotes query_lat
      query_lon Metric) = Inr nairobi_forecast"
    using getForecastByCoords_merges_place [OF f2, of nairobi_parseFloat] g2 by simp
  show ?thesis using f1 g1 r1 f2 g2 r2 by simp
qed

text \<open>
  Claim C2, as amended. The claim says the returned \<^verbatim>\<open>city_info.lat\<close> and \<^verbatim>\<open>city_info.lon\<close>
  are the input coordinates. The service never writes them: they are the ones of the
  backend's response, whether or not geocoding succeeded, and never the geocoder's. The
  input coordinates are what the backend is asked about, not what is returned.
\<close>

theorem getForecastByCoords_keeps_backend_coordinates:
  assumes "forecast_coordinates env la lo u = Inr w"
  shows "\<exists>r. fst (getForecastByCoords pf env la lo u) = Inr r
            \<and> lat (city_info r) = lat (city_info w) \<and> lon (city_info r) = lon (city_info w)"
proof -
  obtain loc evs where g: "getLocationFromCoords pf env la lo = (Inr loc, evs)"
    using getLocationFromCoords_returns by blast
  show ?thesis
    using getForecastByCoords_result [OF g, of u] assms by (cases loc) auto
qed

theorem getForecastByCoords_keeps_backend_coordinates_witness:
  "forecast_coordinates nairobi_remotes query_lat query_lon Metric = Inr nairobi_forecast
   \<and> (\<exists>r. fst (getForecastByCoords nairobi_parseFloat nairobi_remotes query_lat query_lon
              Metric) = Inr r
          \<and> lat (city_info r) = Finite (- 12833 / 10000)
          \<and> lon (city_info r) = Finite (368167 / 10000))"
proof -
  have f1: "forecast_coordinates nairobi_remotes query_lat query_lon Metric =
      Inr nairobi_forecast"
    by (simp add: nairobi_remotes_def fixed_remotes_def)
  show ?thesis
    using getForecastByCoords_keeps_backend_coordinates [OF f1, of nairobi_parseFloat] f1
    by (simp add: nairobi_forecast_def)
qed

text \<open>The claim as stated fails at the query point: the backend answers with the
  coordinates of the city it matched, and those are returned.\<close>

theorem getForecastByCoords_input_coordinates_counterexample:
  "fst (getForecastByCoords nairobi_parseFloat nairobi_remotes query_lat query_lon Metric) =
     Inr nairobi_merged
   \<and> lat (city_info nairobi_merged) \<noteq> query_lat
   \<and> lon (city_info nairobi_merged) \<noteq> query_lon"
  by (simp add: service_defs example_defs)


text \<open>
  Claim C3. For every address record of the geocoder (its \<^verbatim>\<open>city\<close>, \<^verbatim>\<open>town\<close>, \<^verbatim>\<open>village\<close> and
  \<^verbatim>\<open>county\<close> each a string or absent) in a body whose \<^verbatim>\<open>lat\<close> and \<^verbatim>\<open>lon\<close> \<^verbatim>\<open>parseFloat\<close>
  converts (as it does every string, which is what \<^verbatim>\<open>NominatimResponse\<close> types them),
  \<^verbatim>\<open>getLocationFromCoords\<close> returns a descriptor whose name is the first non-empty of
  those four fields in that order, and \<^verbatim>\<open>Unknown Location\<close> when none is: the name the
  specification defines.
\<close>

theorem getLocationFromCoords_display_name:
  assumes "nominatim_reverse env la lo = Inr data"
    and "get_prop data ''address'' = Inr (JObject address)"
    and "list_all (\<lambda>k. optional_string (own_property address k))
           [''city'', ''town'', ''village'', ''county'']"
    and "get_prop data ''lat'' = Inr x" and "\<not> to_string_throws x"
    and "get_prop data ''lon'' = Inr y" and "\<not> to_string_throws y"
  shows "\<exists>info. fst (getLocationFromCoords pf env la lo) = Inr (Some info)
            \<and> name info = spec_display_name address"
proof -
  have l: "location_of_data pf data =
       Inr \<lparr>name = projr (display_name data), country = own_property address ''country'',
            state = own_property address ''state'', lat = pf x, lon = pf y\<rparr>"
    by (rule location_of_data_object [OF assms(2,4,5,6,7)])
  have "projr (display_name data) = spec_display_name address"
    by (simp add: display_name_object [OF assms(2)] spec_display_name_typed [OF assms(3)])
  then show ?thesis
    by (simp add: getLocationFromCoords_cases assms(1) l)
qed

text \<open>Each tier on its own: a city; no city, so the town; an empty city and no town, so
  the village; only a county; none of the four.\<close>

theorem getLocationFromCoords_display_name_witness:
  "(\<exists>info. fst (getLocationFromCoords nairobi_parseFloat
       (fixed_remotes (Inr (body_with_address
          [(''city'', JString ''Nairobi''), (''town'', JString ''Westlands''),
           (''county'', JString ''Nairobi''), (''country'', JString ''Kenya'')]))
          (Inr nairobi_forecast)) query_lat query_lon) = Inr (Some info)
     \<and> name info = JString ''Nairobi'')
   \<and> (\<exists>info. fst (getLocationFromCoords nairobi_parseFloat
       (fixed_remotes (Inr (body_with_address
          [(''town'', JString ''Limuru''), (''village'', JString ''Tigoni''),
           (''county'', JString ''Kiambu''), (''country'', JString ''Kenya'')]))
          (Inr nairobi_forecast)) query_lat query_lon) = Inr (Some info)
     \<and> name info = JString ''Limuru'')
   \<and> (\<exists>info. fst (getLocationFromCoords nairobi_parseFloat
       (fixed_remotes (Inr (body_with_address
          [(''city'', JString ''''), (''village'', JString ''Kijabe''),
           (''county'', JString ''Kiambu''), (''country'', JString ''Kenya'')]))
          (Inr nairobi_forecast)) query_lat query_lon) = Inr (Some info)
     \<and> name info = JString ''Kijabe'')
   \<and> (\<exists>info. fst (getLocationFromCoords nairobi_parseFloat
       (fixed_remotes (Inr (body_with_address
          [(''county'', JString ''Kiambu''), (''country'', JString ''Kenya'')]))
          (Inr nairobi_forecast)) query_lat query_lon) = Inr (Some info)
     \<and> name info = JString ''Kiambu'')
   \<and> (\<exists>info. fst (getLocationFromCoords nairobi_parseFloat
       (fixed_remotes (Inr (body_with_address [(''country'', JString ''Kenya'')]))
          (Inr nairobi_forecast)) query_lat query_lon) = Inr (Some info)
     \<and> name info = JString ''Unknown Location'')"
proof -
  have tier: "\<exists>info. fst (getLocationFromCoords nairobi_parseFloat
       (fixed_remotes (Inr (body_with_address a)) (Inr nairobi_forecast))
       query_lat query_lon) = Inr (Some info) \<and> name info = n"
    if "list_all (\<lambda>k. optional_string (own_property a k))
          [''city'', ''town'', ''village'', ''county'']"
      and "spec_display_name a = n" for a n
    using getLocationFromCoords_display_name
      [where env = "fixed_remotes (Inr (body_with_address a)) (Inr nairobi_forecast)"
         and la = query_lat and lo = query_lon and data = "body_with_address a"
         and address = a and x = "JString ''-1.2832533''" and y = "JString ''36.8172449''"
         and pf = nairobi_parseFloat] that
    by (simp add: fixed_remotes_def body_with_address_def own_property_def)
  show ?thesis
    by (intro conjI tier)
      (simp_all add: spec_display_name_def own_property_def nonempty_def
        optional_string_def)
qed




text \<open>
  Claim C5. For every city name and units value, the promise of \<^verbatim>\<open>getForecastByCity\<close>
  settles exactly as the backend request did: rejected with the very error the request
  was rejected with, or fulfilled with the response's data.
\<close>

theorem getForecastByCity_settles_as_request:
  "fst (getForecastByCity env c u) = forecast_city env c u"
  by (simp add: getForecastByCity_def split: sum.splits)

text \<open>
  Claim C6 does not hold of the code. The page tests \<^verbatim>\<open>city_info.lat && city_info.lon\<close>
  for truthiness, and \<open>0\<close> is falsy: with a forecast for a place on the equator (or on
  the prime meridian) and a city name in the search box, \<^verbatim>\<open>refetchWeather\<close> issues the
  request by name and no request by coordinates.
\<close>

theorem refetchWeather_zero_latitude_by_name:
  "requests (snd (refetchWeather pf env equator_page)) =
     [Issued (ForecastCity ''Nanyuki'' Metric), Settled (ForecastCity ''Nanyuki'' Metric)]"
  by (simp add: refetchWeather_def equator_page_def equator_forecast_def
      getForecastByCity_def requests_def split: sum.splits)

text \<open>With both coordinates truthy the request is by coordinates, whatever the search
  box holds.\<close>

lemma requests_append: "requests (xs @ ys) = requests xs @ requests ys"
  by (simp add: requests_def)

lemma refetchWeather_by_coordinates:
  assumes "weatherData s = Some w"
    and "truthy_number (lat (city_info w))" and "truthy_number (lon (city_info w))"
  shows "requests (snd (refetchWeather pf env s)) =
     [Issued (Reverse (lat (city_info w)) (lon (city_info w))),
      Settled (Reverse (lat (city_info w)) (lon (city_info w))),
      Issued (ForecastCoordinates (lat (city_info w)) (lon (city_info w)) (units s)),
      Settled (ForecastCoordinates (lat (city_info w)) (lon (city_info w)) (units s))]"
  using assms
    getForecastByCoords_requests [of pf env "lat (city_info w)" "lon (city_info w)" "units s"]
  by (simp add: refetchWeather_def requests_append Let_def split: prod.splits sum.splits)
    (auto simp add: requests_def)

text \<open>Without a forecast, or with a falsy coordinate, the request is by name when the
  search box is not empty.\<close>

lemma refetchWeather_by_name:
  assumes "city' s \<noteq> []"
    and "case weatherData s of None \<Rightarrow> True
         | Some w \<Rightarrow> \<not> (truthy_number (lat (city_info w)) \<and> truthy_number (lon (city_info w)))"
  shows "requests (snd (refetchWeather pf env s)) =
     [Issued (ForecastCity (city' s) (units s)), Settled (ForecastCity (city' s) (units s))]"
  using assms
  by (auto simp add: refetchWeather_def getForecastByCity_def requests_def Let_def
      split: option.splits sum.splits)

text \<open>
  Claim C7, as amended. The compass label is the same at \<open>0\<close> and \<open>360\<close>, and at \<open>361\<close> and
  \<open>1\<close>; and for every degree \<open>d \<ge> 0\<close> whose sum with \<open>360\<close> binary64 computes exactly,
  the label at \<^verbatim>\<open>d + 360\<close> is the label at \<open>d\<close>.
\<close>

theorem getWindDirection_wraparound:
  "getWindDirection (Some (Finite 0)) = getWindDirection (Some (Finite 360))
   \<and> getWindDirection (Some (Finite 361)) = getWindDirection (Some (Finite 1))
   \<and> (\<forall>d\<ge>0. js_add (Finite d) (Finite 360) = Finite (d + 360) \<longrightarrow>
          getWindDirection (Some (js_add (Finite d) (Finite 360))) =
          getWindDirection (Some (Finite d)))"
proof (intro conjI allI impI)
  show "getWindDirection (Some (Finite 0)) = getWindDirection (Some (Finite 360))"
    using getWindDirection_wrap [of 0] by simp
  show "getWindDirection (Some (Finite 361)) = getWindDirection (Some (Finite 1))"
    using getWindDirection_wrap [of 1] by simp
  show "getWindDirection (Some (js_add (Finite d) (Finite 360))) =
      getWindDirection (Some (Finite d))"
    if "0 \<le> d" and "js_add (Finite d) (Finite 360) = Finite (d + 360)" for d
    using that getWindDirection_wrap [of d] by (simp del: js_add.simps)
qed

text \<open>At \<open>90\<close> degrees the sum is exact, and the label is \<^verbatim>\<open>E\<close> both times.\<close>

theorem getWindDirection_wraparound_witness:
  "(0::rat) \<le> 90
   \<and> js_add (Finite 90) (Finite 360) = Finite (90 + 360)
   \<and> getWindDirection (Some (js_add (Finite 90) (Finite 360))) =
       getWindDirection (Some (Finite 90))
   \<and> getWindDirection (Some (Finite 90)) = JString ''E''"
proof -
  have e: "getWindDirection (Some (Finite 90)) = JString ''E''" by code_simp
  have a: "js_add (Finite 90) (Finite 360) = Finite (90 + 360)" by code_simp
  have "(0::rat) \<le> 90 \<longrightarrow> js_add (Finite 90) (Finite 360) = Finite (90 + 360) \<longrightarrow>
      getWindDirection (Some (js_add (Finite 90) (Finite 360))) =
      getWindDirection (Some (Finite 90))"
    using getWindDirection_wraparound by blast
  then show ?thesis using e a by (simp del: js_add.simps)
qed

text \<open>
  The claim as stated, for every \<open>d \<ge> 0\<close>, fails at the double just below \<open>22.5\<close>, which is
  \<open>45/2 - 1/2^48\<close> (\<^verbatim>\<open>22.499999999999996\<close>): its sum with \<open>360\<close> rounds to \<open>382.5\<close>, and the
  labels are \<^verbatim>\<open>N\<close> and \<^verbatim>\<open>NE\<close>.
\<close>

theorem getWindDirection_wraparound_counterexample:
  "round64 (45 / 2 - 1 / 2 ^ 48) = Finite (45 / 2 - 1 / 2 ^ 48)
   \<and> js_add (Finite (45 / 2 - 1 / 2 ^ 48)) (Finite 360) = Finite (765 / 2)
   \<and> getWindDirection (Some (Finite (45 / 2 - 1 / 2 ^ 48))) = JString ''N''
   \<and> getWindDirection (Some (js_add (Finite (45 / 2 - 1 / 2 ^ 48)) (Finite 360))) =
       JString ''NE''"
  by code_simp

text \<open>
  Claim C8. When the geocoder's request resolves and \<^verbatim>\<open>getLocationFromCoords\<close> returns a
  descriptor, its \<^verbatim>\<open>lat\<close> and \<^verbatim>\<open>lon\<close> are \<^verbatim>\<open>parseFloat\<close> of the body's \<^verbatim>\<open>lat\<close> and \<^verbatim>\<open>lon\<close>; the
  caller's coordinates do not enter.
\<close>

theorem getLocationFromCoords_coordinates_of_response:
  assumes "nominatim_reverse env la lo = Inr data"
    and "fst (getLocationFromCoords pf env la lo) = Inr (Some info)"
  shows "\<exists>x y. get_prop data ''lat'' = Inr x \<and> get_prop data ''lon'' = Inr y
            \<and> lat info = pf x \<and> lon info = pf y"
  using location_of_data_Inr [OF getLocationFromCoords_Some [OF assms]]
  by auto

text \<open>At the query point the descriptor has the geocoder's point, which is not the
  query's.\<close>

theorem getLocationFromCoords_coordinates_of_response_witness:
  "nominatim_reverse nairobi_remotes query_lat query_lon = Inr nairobi_body
   \<and> fst (getLocationFromCoords nairobi_parseFloat nairobi_remotes query_lat query_lon) =
       Inr (Some nairobi_place)
   \<and> (\<exists>x y. get_prop nairobi_body ''lat'' = Inr x \<and> get_prop nairobi_body ''lon'' = Inr y
          \<and> lat nairobi_place = nairobi_parseFloat x \<and> lon nairobi_place = nairobi_parseFloat y)
   \<and> lat nairobi_place \<noteq> query_lat \<and> lon nairobi_place \<noteq> query_lon"
proof -
  have b: "nominatim_reverse nairobi_remotes query_lat query_lon = Inr nairobi_body"
    by (simp add: nairobi_remotes_def fixed_remotes_def)
  have g: "fst (getLocationFromCoords nairobi_parseFloat nairobi_remotes query_lat query_lon) =
      Inr (Some nairobi_place)"
    by (simp add: service_defs example_defs)
  have d: "lat nairobi_place \<noteq> query_lat \<and> lon nairobi_place \<noteq> query_lon"
    by (simp add: nairobi_place_def query_lat_def query_lon_def)
  show ?thesis
    using getLocationFromCoords_coordinates_of_response [OF b g] b g d by simp
qed

text \<open>
  Claim C9. In every run of \<^verbatim>\<open>getForecastByCoords\<close> the requests are, in this order: the
  geocoding request issued, the geocoding request settled, the forecast request issued
  (with the caller's coordinates and units), the forecast request settled. This holds
  whatever either service answers, so the forecast request is never skipped and never
  in flight together with the geocoding request.
\<close>

theorem getForecastByCoords_request_order:
  "requests (snd (getForecastByCoords pf env la lo u)) =
     [Issued (Reverse la lo), Settled (Reverse la lo),
      Issued (ForecastCoordinates la lo u), Settled (ForecastCoordinates la lo u)]"
  by (rule getForecastByCoords_requests)

text \<open>
  Claim C10. When geocoding succeeds on a body whose address record has no \<^verbatim>\<open>state\<close>,
  the forecast returned by \<^verbatim>\<open>getForecastByCoords\<close> is the backend's with the descriptor's
  name and country and with \<^verbatim>\<open>city_info.state\<close> undefined, whatever region the backend
  had supplied.
\<close>

theorem getForecastByCoords_absent_state_overwrites:
  assumes "nominatim_reverse env la lo = Inr data"
    and "get_prop data ''address'' = Inr (JObject address)"
    and "map_of address ''state'' = None"
    and "fst (getLocationFromCoords pf env la lo) = Inr (Some info)"
    and "forecast_coordinates env la lo u = Inr w"
  shows "fst (getForecastByCoords pf env la lo u) =
     Inr \<lparr>city = city w, daily_forecasts = daily_forecasts w,
          city_info = \<lparr>name = name info, country = country info, state = JUndefined,
                       lat = lat (city_info w), lon = lon (city_info w)\<rparr>\<rparr>"
proof -
  obtain n c s x y where i: "address_field data ''state'' = Inr s"
      "info = \<lparr>name = n, country = c, state = s, lat = pf x, lon = pf y\<rparr>"
    using location_of_data_Inr [OF getLocationFromCoords_Some [OF assms(1,4)]] by blast
  have "s = JUndefined"
    using i(1) assms(3) by (simp add: address_field_object [OF assms(2)] own_property_def)
  then have st: "state info = JUndefined" using i(2) by simp
  obtain loc evs where g: "getLocationFromCoords pf env la lo = (Inr loc, evs)"
    using getLocationFromCoords_returns by blast
  then have "loc = Some info" using assms(4) by simp
  then show ?thesis
    using getForecastByCoords_result [OF g, of u] assms(5) st by simp
qed

text \<open>The backend's region, \<^verbatim>\<open>Nairobi Area\<close>, is gone when the geocoder's address has no
  state.\<close>

theorem getForecastByCoords_absent_state_overwrites_witness:
  "state (city_info nairobi_forecast) = JString ''Nairobi Area''
   \<and> fst (getLocationFromCoords nairobi_parseFloat stateless_remotes query_lat query_lon) =
       Inr (Some stateless_place)
   \<and> fst (getForecastByCoords nairobi_parseFloat stateless_remotes query_lat query_lon
            Metric) =
       Inr \<lparr>city = nairobi_city, daily_forecasts = [],
            city_info = \<lparr>name = JString ''Nairobi'', country = JString ''Kenya'',
                         state = JUndefined,
                         lat = Finite (- 12833 / 10000), lon = Finite (368167 / 10000)\<rparr>\<rparr>"
proof -
  have s: "state (city_info nairobi_forecast) = JString ''Nairobi Area''"
    by (simp add: nairobi_forecast_def)
  have b: "nominatim_reverse stateless_remotes query_lat query_lon =
      Inr (body_with_address stateless_address)"
    by (simp add: stateless_remotes_def fixed_remotes_def)
  have a: "get_prop (body_with_address stateless_address) ''address'' =
      Inr (JObject stateless_address)"
    by (simp add: body_with_address_def own_property_def)
  have n: "map_of stateless_address ''state'' = None"
    by (simp add: stateless_address_def)
  have g: "fst (getLocationFromCoords nairobi_parseFloat stateless_remotes query_lat
      query_lon) = Inr (Some stateless_place)"
    by (simp add: service_defs example_defs stateless_remotes_def stateless_address_def
        stateless_place_def)
  have f: "forecast_coordinates stateless_remotes query_lat query_lon Metric =
      Inr nairobi_forecast"
    by (simp add: stateless_remotes_def fixed_remotes_def)
  show ?thesis
    using getForecastByCoords_absent_state_overwrites [OF b a n g f] s g
    by (simp add: nairobi_forecast_def stateless_place_def)
qed

end
